theory Spec2Isabelle
  imports Complex_Main
begin

section \<open>Class labels and the advisory catalog\<close>

text \<open>
  The dictionaries \<open>SKIN_CLASSES\<close> and \<open>DISEASE_INFO\<close> of \<open>app.py\<close> are keyed by
  Python integers. A dictionary is a map from \<open>int\<close>; a key that is not in the dictionary
  is \<open>None\<close>, which the subscript \<open>d[k]\<close> turns into a \<open>KeyError\<close>.
  Strings are lists of bytes, a Python string being taken in its UTF-8 encoding: the label
  of class 0 holds three code points outside ASCII (the source file spells the apostrophe
  of "Bowen's" as U+00E2 U+20AC U+2122), which are eight bytes here.
\<close>

definition SKIN_CLASSES :: "int \<rightharpoonup> string" where
  "SKIN_CLASSES = map_of
    [(0, ''Actinic Keratoses (Solar Keratoses) / Bowen''
           @ [CHR 0xC3, CHR 0xA2, CHR 0xE2, CHR 0x82, CHR 0xAC, CHR 0xE2, CHR 0x84, CHR 0xA2]
           @ ''s disease''),
     (1, ''Basal Cell Carcinoma''),
     (2, ''Benign Keratosis''),
     (3, ''Dermatofibroma''),
     (4, ''Melanoma''),
     (5, ''Melanocytic Nevi''),
     (6, ''Vascular skin lesion'')]"

record advisory =
  severity :: string
  precautions :: "string list"
  food_precautions :: "string list"
  consultation :: string

definition DISEASE_INFO :: "int \<rightharpoonup> advisory" where
  "DISEASE_INFO = map_of
    [(0, \<lparr>severity = ''Moderate to High'',
          precautions =
            [''Use sunscreen SPF 30+ daily.'',
             ''Avoid direct sunlight.'',
             ''Regularly monitor for changes.''],
          food_precautions =
            [''Eat fresh fruits and vegetables.'',
             ''Drink enough water.'',
             ''Avoid junk and oily food.'',
             ''Reduce sugar intake.'',
             ''Avoid alcohol and smoking.''],
          consultation = ''Dermatologist consultation strongly recommended.''\<rparr>),
     (1, \<lparr>severity = ''High'',
          precautions =
            [''Avoid UV exposure.'',
             ''Do not scratch the lesion.'',
             ''Track lesion growth with photos.''],
          food_precautions =
            [''Eat healthy home-cooked food.'',
             ''Include fruits and vegetables daily.'',
             ''Drink enough water.'',
             ''Avoid alcohol completely.'',
             ''Avoid processed and junk food.''],
          consultation = ''Immediate dermatologist visit recommended.''\<rparr>),
     (2, \<lparr>severity = ''Low to Moderate'',
          precautions =
            [''Avoid skin irritation.'',
             ''Moisturize dry skin.'',
             ''Monitor for color or size changes.''],
          food_precautions =
            [''Maintain a balanced diet.'',
             ''Drink enough water.'',
             ''Reduce oily and spicy food.'',
             ''Avoid excess sugar.'',
             ''Prefer home food.''],
          consultation = ''Routine dermatology checkup advised.''\<rparr>),
     (3, \<lparr>severity = ''Low'',
          precautions =
            [''Avoid trauma to the lesion.'',
             ''Keep skin clean.'',
             ''Watch for sudden size or texture changes.''],
          food_precautions =
            [''Eat nutritious food.'',
             ''Include proteins like pulses or eggs.'',
             ''Drink enough water.'',
             ''Avoid junk food.'',
             ''Avoid excessive caffeine.''],
          consultation = ''Non-urgent dermatology visit recommended.''\<rparr>),
     (4, \<lparr>severity = ''Very High (dangerous)'',
          precautions =
            [''Avoid sun completely.'',
             ''Do not delay medical checkup.'',
             ''Monitor ABCDE(Asymmetry, Border irregularity, Color variation, Diameter(>6 mm), Evolving) signs.''],
          food_precautions =
            [''Eat antioxidant-rich fruits and vegetables.'',
             ''Drink plenty of water.'',
             ''Avoid alcohol and smoking.'',
             ''Avoid processed food.'',
             ''Maintain a healthy diet to support treatment.''],
          consultation = ''Urgent dermatologist or oncologist appointment needed.''\<rparr>),
     (5, \<lparr>severity = ''Low (but monitor)'',
          precautions =
            [''Monitor mole changes.'',
             ''Use sunscreen daily.'',
             ''Avoid self-removal.''],
          food_precautions =
            [''Eat fresh fruits and vegetables.'',
             ''Drink enough water.'',
             ''Avoid junk food.'',
             ''Reduce sugar intake.'',
             ''Maintain a healthy lifestyle.''],
          consultation = ''Consult dermatologist if changes appear.''\<rparr>),
     (6, \<lparr>severity = ''Low to Moderate'',
          precautions =
            [''Avoid scratching.'',
             ''Keep the area clean.'',
             ''Watch for sudden swelling or bleeding.''],
          food_precautions =
            [''Drink enough water.'',
             ''Eat balanced meals.'',
             ''Reduce salty food.'',
             ''Avoid alcohol.'',
             ''Avoid junk food.''],
          consultation = ''Dermatology consultation recommended.''\<rparr>)]"

section \<open>Python values, exceptions and library functions\<close>

text \<open>
  The values that reach the code from outside are JSON values, as \<open>requests\<close> decodes
  them, and strings. An object is the list of its key-value pairs with distinct keys, as
  a Python dictionary holds them. A Python float is modelled as a real number: finite
  values with exact arithmetic. Rounding to 53 bits, overflow, and the values \<open>nan\<close> and
  \<open>inf\<close> are outside this model, so it is an idealisation of the arithmetic and not the
  arithmetic of the program. The theorems below rest on it only where the program agrees:
  which arguments \<open>float\<close> rejects, which entries the lookup builds, and the symmetry of
  the distance. No theorem states what number the program returns on numeric input in
  general; the examples use only the distance of a point from itself, which is 0 in
  double precision as well.
\<close>

datatype json =
    JNull
  | JBool bool
  | JInt int
  | JFloat real
  | JStr string
  | JArr "json list"
  | JObj "(string \<times> json) list"

datatype exn =
    KeyError json
  | TypeError
  | ValueError
  | AttributeError
  | IndexError
  | ProviderError string

text \<open>
  The builtin \<open>float(v)\<close>. On a string it parses Python's float grammar; the parser is not
  code of this repository and is the parameter \<open>float_str\<close>, which gives the value of a
  string the builtin accepts and \<open>None\<close> for a string on which it raises \<open>ValueError\<close>.
  A \<open>bool\<close> is an \<open>int\<close> in Python, so \<open>float(True)\<close> is \<open>1.0\<close>; \<open>None\<close>, lists and
  dictionaries raise \<open>TypeError\<close>.
\<close>

fun py_float :: "(string \<Rightarrow> real option) \<Rightarrow> json \<Rightarrow> exn + real" where
  "py_float float_str (JStr s) =
     (case float_str s of None \<Rightarrow> Inl ValueError | Some x \<Rightarrow> Inr x)"
| "py_float float_str (JFloat x) = Inr x"
| "py_float float_str (JInt i) = Inr (of_int i)"
| "py_float float_str (JBool b) = Inr (if b then 1 else 0)"
| "py_float float_str JNull = Inl TypeError"
| "py_float float_str (JArr xs) = Inl TypeError"
| "py_float float_str (JObj kvs) = Inl TypeError"

definition math_radians :: "real \<Rightarrow> real" where
  "math_radians x = x * (pi / 180)"

text \<open>\<open>math.sqrt\<close> raises \<open>ValueError\<close> on a negative argument.\<close>

definition math_sqrt :: "real \<Rightarrow> exn + real" where
  "math_sqrt x = (if x < 0 then Inl ValueError else Inr (sqrt x))"

text \<open>\<open>math.atan2(y, x)\<close>: the angle of the point \<open>(x, y)\<close>, in \<open>(-pi, pi]\<close>, and 0 at the origin.\<close>

definition math_atan2 :: "real \<Rightarrow> real \<Rightarrow> real" where
  "math_atan2 y x =
     (if 0 < x then arctan (y / x)
      else if x < 0 then (if 0 \<le> y then arctan (y / x) + pi else arctan (y / x) - pi)
      else if 0 < y then pi / 2
      else if y < 0 then - (pi / 2)
      else 0)"

text \<open>
  \<open>round(x, n)\<close> on a float: the closest multiple of \<open>10 ^ (-n)\<close>, and of two equally close
  ones the one with an even last digit.
\<close>

definition py_round :: "real \<Rightarrow> nat \<Rightarrow> real" where
  "py_round x n =
     (let y = x * 10 ^ n; f = \<lfloor>y\<rfloor>; d = y - of_int f in
      (if d < 1 / 2 then of_int f
       else if 1 / 2 < d then of_int f + 1
       else if even f then of_int f
       else of_int f + 1) / 10 ^ n)"

text \<open>Sequencing of computations that may raise: the first exception ends the computation.\<close>

definition and_then :: "exn + 'a \<Rightarrow> ('a \<Rightarrow> exn + 'b) \<Rightarrow> exn + 'b" where
  "and_then m f = (case m of Inl e \<Rightarrow> Inl e | Inr x \<Rightarrow> f x)"

section \<open>The distance calculator\<close>

text \<open>
  \<open>calculate_distance_try\<close> is the body of the \<open>try\<close> block of \<open>calculate_distance\<close>,
  statement by statement; \<open>calculate_distance\<close> adds the bare \<open>except\<close>, which turns every
  exception into the result \<open>None\<close>.
\<close>

definition calculate_distance_try ::
  "(string \<Rightarrow> real option) \<Rightarrow> json \<Rightarrow> json \<Rightarrow> json \<Rightarrow> json \<Rightarrow> exn + real" where
  "calculate_distance_try float_str lat1 lon1 lat2 lon2 =
     (let R = 6371 in
      and_then (py_float float_str lat1) (\<lambda>f1. let lat1 = math_radians f1 in
      and_then (py_float float_str lon1) (\<lambda>f2. let lon1 = math_radians f2 in
      and_then (py_float float_str lat2) (\<lambda>f3. let lat2 = math_radians f3 in
      and_then (py_float float_str lon2) (\<lambda>f4. let lon2 = math_radians f4 in
      let dlat = lat2 - lat1;
          dlon = lon2 - lon1;
          a = (sin (dlat / 2))\<^sup>2 + cos lat1 * cos lat2 * (sin (dlon / 2))\<^sup>2
      in
      and_then (math_sqrt a) (\<lambda>s1.
      and_then (math_sqrt (1 - a)) (\<lambda>s2.
      let c = 2 * math_atan2 s1 s2 in
      Inr (py_round (R * c) 2))))))))"

definition calculate_distance ::
  "(string \<Rightarrow> real option) \<Rightarrow> json \<Rightarrow> json \<Rightarrow> json \<Rightarrow> json \<Rightarrow> real option" where
  "calculate_distance float_str lat1 lon1 lat2 lon2 =
     (case calculate_distance_try float_str lat1 lon1 lat2 lon2 of
        Inl e \<Rightarrow> None
      | Inr d \<Rightarrow> Some d)"

text \<open>
  The distance the specification describes, before rounding: the haversine formula on a
  sphere of radius 6371 km, on coordinates in degrees, in exact arithmetic. This
  definition follows the specification's wording.
\<close>

definition haversine_km :: "real \<Rightarrow> real \<Rightarrow> real \<Rightarrow> real \<Rightarrow> real" where
  "haversine_km lat1 lon1 lat2 lon2 =
     (let dlat = (lat2 - lat1) * pi / 180;
          dlon = (lon2 - lon1) * pi / 180;
          a = (sin (dlat / 2))\<^sup>2
              + cos (lat1 * pi / 180) * cos (lat2 * pi / 180) * (sin (dlon / 2))\<^sup>2;
          c = 2 * math_atan2 (sqrt a) (sqrt (1 - a))
      in 6371 * c)"

section \<open>The hospital lookup\<close>

text \<open>
  \<open>request.args.get\<close> gives a string, or \<open>None\<close> for a parameter that is not in the query.
  \<open>not v\<close> holds of \<open>None\<close> and of the empty string.
\<close>

definition DEFAULT_LAT :: string where
  "DEFAULT_LAT = ''16.3067''"

definition DEFAULT_LNG :: string where
  "DEFAULT_LNG = ''80.4365''"

definition py_not :: "string option \<Rightarrow> bool" where
  "py_not v = (case v of None \<Rightarrow> True | Some s \<Rightarrow> s = [])"

definition resolve_coordinates :: "string option \<Rightarrow> string option \<Rightarrow> string \<times> string" where
  "resolve_coordinates lat lng =
     (if py_not lat \<or> py_not lng then (DEFAULT_LAT, DEFAULT_LNG)
      else case (lat, lng) of
             (Some a, Some b) \<Rightarrow> (a, b)
           | _ \<Rightarrow> (DEFAULT_LAT, DEFAULT_LNG))"

text \<open>
  The subscript \<open>r[k]\<close> with a string key: a dictionary gives the value or raises
  \<open>KeyError\<close>; a list, a string and every other JSON value raise \<open>TypeError\<close>.
\<close>

fun getitem :: "json \<Rightarrow> string \<Rightarrow> exn + json" where
  "getitem (JObj kvs) k = (case map_of kvs k of None \<Rightarrow> Inl (KeyError (JStr k)) | Some v \<Rightarrow> Inr v)"
| "getitem v k = Inl TypeError"

text \<open>The method \<open>r.get(k, d)\<close>: only a dictionary has it.\<close>

fun dict_get :: "json \<Rightarrow> string \<Rightarrow> json \<Rightarrow> exn + json" where
  "dict_get (JObj kvs) k d = Inr (case map_of kvs k of None \<Rightarrow> d | Some v \<Rightarrow> v)"
| "dict_get v k d = Inl AttributeError"

text \<open>
  What \<open>for r in results\<close> iterates over: the elements of a list, the keys of a dictionary,
  the characters of a string; every other JSON value is not iterable.
\<close>

fun py_iter :: "json \<Rightarrow> exn + json list" where
  "py_iter (JArr xs) = Inr xs"
| "py_iter (JObj kvs) = Inr (map (\<lambda>kv. JStr (fst kv)) kvs)"
| "py_iter (JStr s) = Inr (map (\<lambda>c. JStr [c]) s)"
| "py_iter v = Inl TypeError"

text \<open>
  An entry of the hospital list, with the keys \<open>name\<close>, \<open>address\<close>, \<open>lat\<close>, \<open>lng\<close> and
  \<open>distance\<close> of the dictionary the loop appends.
\<close>

record hospital =
  h_name :: json
  h_address :: json
  h_lat :: json
  h_lng :: json
  h_distance :: "real option"

text \<open>One pass through the body of the loop: the entry appended for the candidate \<open>r\<close>.\<close>

definition hospital_entry ::
  "(string \<Rightarrow> real option) \<Rightarrow> string \<Rightarrow> string \<Rightarrow> json \<Rightarrow> exn + hospital" where
  "hospital_entry float_str lat lng r =
     and_then (getitem r ''lat'') (\<lambda>rlat.
     and_then (getitem r ''lon'') (\<lambda>rlon.
     let dist = calculate_distance float_str (JStr lat) (JStr lng) rlat rlon in
     and_then (dict_get r ''display_name'' (JStr ''Unknown Hospital'')) (\<lambda>nm.
     and_then (dict_get r ''address'' (JObj [])) (\<lambda>ad.
     and_then (dict_get ad ''road'' (JStr ''Not Provided'')) (\<lambda>road.
     Inr \<lparr>h_name = nm, h_address = road, h_lat = rlat, h_lng = rlon, h_distance = dist\<rparr>)))))"

fun hospitals_loop ::
  "(string \<Rightarrow> real option) \<Rightarrow> string \<Rightarrow> string \<Rightarrow> hospital list \<Rightarrow> json list
     \<Rightarrow> exn + hospital list" where
  "hospitals_loop float_str lat lng hospitals [] = Inr hospitals"
| "hospitals_loop float_str lat lng hospitals (r # rs) =
     (case hospital_entry float_str lat lng r of
        Inl e \<Rightarrow> Inl e
      | Inr h \<Rightarrow> hospitals_loop float_str lat lng (hospitals @ [h]) rs)"

text \<open>
  The response: the fields of the JSON object passed to \<open>jsonify\<close>. The error response
  carries the exception whose text is the message.
\<close>

datatype response =
    Ok_response (latitude_used: string) (longitude_used: string) (hospitals: "hospital list")
  | Error_response (message: exn)

text \<open>
  \<open>nearby_hospitals\<close> takes the two query parameters and the outcome of
  \<open>requests.get(url, headers=headers).json()\<close>: the decoded JSON value, or the exception
  the call raised.
\<close>

definition nearby_hospitals ::
  "(string \<Rightarrow> real option) \<Rightarrow> string option \<Rightarrow> string option \<Rightarrow> exn + json \<Rightarrow> response" where
  "nearby_hospitals float_str lat_arg lng_arg provider =
     (case resolve_coordinates lat_arg lng_arg of (lat, lng) \<Rightarrow>
        (case and_then provider (\<lambda>results.
              and_then (py_iter results) (\<lambda>rs.
              hospitals_loop float_str lat lng [] rs)) of
           Inl e \<Rightarrow> Error_response e
         | Inr hs \<Rightarrow> Ok_response lat lng hs))"

text \<open>
  The shape of a candidate under the provider contract: a JSON object that has the fields
  \<open>lat\<close> and \<open>lon\<close>, and whose field \<open>address\<close>, when it is there, is an object. The lookup
  does not check this; it is the hypothesis under which no statement of the loop body
  outside \<open>calculate_distance\<close> raises.
\<close>

fun provider_candidate :: "json \<Rightarrow> bool" where
  "provider_candidate (JObj kvs) =
     (map_of kvs ''lat'' \<noteq> None \<and> map_of kvs ''lon'' \<noteq> None
      \<and> (case map_of kvs ''address'' of
            None \<Rightarrow> True
          | Some (JObj a) \<Rightarrow> True
          | Some v \<Rightarrow> False))"
| "provider_candidate v = False"

section \<open>The prediction handler\<close>

text \<open>
  \<open>np.argmax\<close> on the flattened array: the index of the first occurrence of the maximum;
  it raises \<open>ValueError\<close> on an empty array. The loop keeps the index and the value of the
  best entry so far and replaces them only by a strictly greater entry.
\<close>

fun argmax_loop :: "real list \<Rightarrow> nat \<Rightarrow> nat \<Rightarrow> real \<Rightarrow> nat" where
  "argmax_loop [] i best v = best"
| "argmax_loop (x # xs) i best v =
     (if v < x then argmax_loop xs (Suc i) i x else argmax_loop xs (Suc i) best v)"

definition np_argmax :: "real list \<Rightarrow> exn + nat" where
  "np_argmax xs = (case xs of [] \<Rightarrow> Inl ValueError | x # rest \<Rightarrow> Inr (argmax_loop rest 1 0 x))"

text \<open>Indexing \<open>xs[i]\<close> with an index that is not negative.\<close>

definition py_index :: "'a list \<Rightarrow> nat \<Rightarrow> exn + 'a" where
  "py_index xs i = (if i < length xs then Inr (xs ! i) else Inl IndexError)"

definition py_lookup :: "(int \<rightharpoonup> 'a) \<Rightarrow> int \<Rightarrow> exn + 'a" where
  "py_lookup d k = (case d k of None \<Rightarrow> Inl (KeyError (JInt k)) | Some v \<Rightarrow> Inr v)"

text \<open>
  \<open>uploaded\<close> from the prediction on: its argument is the array \<open>model.predict\<close> returned,
  one row of class probabilities for each image of the batch, and its result holds the
  values handed to the page template.
\<close>

record page =
  predictions :: string
  acc :: real
  severity_level :: string
  page_precautions :: "string list"
  page_food_precautions :: "string list"
  page_consultation :: string

definition uploaded :: "real list list \<Rightarrow> exn + page" where
  "uploaded prediction =
     and_then (np_argmax (concat prediction)) (\<lambda>pred_class.
     and_then (py_lookup SKIN_CLASSES (int pred_class)) (\<lambda>disease.
     and_then (py_index prediction 0) (\<lambda>row.
     and_then (py_index row pred_class) (\<lambda>p.
     let accuracy = p * 100 in
     and_then (py_lookup DISEASE_INFO (int pred_class)) (\<lambda>info.
     Inr \<lparr>predictions = disease,
          acc = py_round accuracy 2,
          severity_level = severity info,
          page_precautions = precautions info,
          page_food_precautions = food_precautions info,
          page_consultation = consultation info\<rparr>)))))"

section \<open>Plain decimal literals\<close>

text \<open>
  The examples below need a value for the parameter \<open>float_str\<close>. \<open>decimal_float\<close> reads
  the plain decimal literals of Python's float grammar: an optional sign, digits, and at
  most one point with a digit before or after it (\<open>16.3067\<close>, \<open>-7\<close>, \<open>.5\<close>, \<open>2.\<close>). On these
  strings it gives the number they denote, and it rejects the empty string and strings
  that hold any other character. The theorems hold for every value of the parameter;
  only the examples use this one.
\<close>

definition digit_value :: "char \<Rightarrow> nat option" where
  "digit_value c = map_of
     [(CHR ''0'', 0), (CHR ''1'', 1), (CHR ''2'', 2), (CHR ''3'', 3), (CHR ''4'', 4),
      (CHR ''5'', 5), (CHR ''6'', 6), (CHR ''7'', 7), (CHR ''8'', 8), (CHR ''9'', 9)] c"

fun digits_value :: "nat \<Rightarrow> string \<Rightarrow> nat option" where
  "digits_value n [] = Some n"
| "digits_value n (c # cs) =
     (case digit_value c of None \<Rightarrow> None | Some d \<Rightarrow> digits_value (10 * n + d) cs)"

definition unsigned_decimal :: "string \<Rightarrow> real option" where
  "unsigned_decimal s =
     (let ip = takeWhile (\<lambda>c. c \<noteq> CHR ''.'') s;
          fp = drop 1 (dropWhile (\<lambda>c. c \<noteq> CHR ''.'') s)
      in if ip = [] \<and> fp = [] then None
         else case (digits_value 0 ip, digits_value 0 fp) of
                (Some i, Some f) \<Rightarrow> Some (real i + real f / 10 ^ length fp)
              | _ \<Rightarrow> None)"

definition decimal_float :: "string \<Rightarrow> real option" where
  "decimal_float s =
     (case s of
        [] \<Rightarrow> None
      | c # r \<Rightarrow>
          if c = CHR ''-'' then map_option uminus (unsigned_decimal r)
          else if c = CHR ''+'' then unsigned_decimal r
          else unsigned_decimal s)"

section \<open>Properties of the prediction handler\<close>

text \<open>
  The invariant of \<open>argmax_loop\<close>: \<open>ys\<close> is the part of the array already visited, \<open>best\<close> the
  index of the first greatest entry of \<open>ys\<close>, and \<open>v\<close> that entry.
\<close>

lemma argmax_loop_inv:
  assumes "best < length ys" "v = ys ! best"
    "\<forall>j<length ys. ys ! j \<le> v" "\<forall>j<best. ys ! j < v"
  shows "argmax_loop xs (length ys) best v < length (ys @ xs)
       \<and> (\<forall>j<length (ys @ xs). (ys @ xs) ! j \<le> (ys @ xs) ! argmax_loop xs (length ys) best v)
       \<and> (\<forall>j<argmax_loop xs (length ys) best v.
             (ys @ xs) ! j < (ys @ xs) ! argmax_loop xs (length ys) best v)"
  using assms
proof (induction xs arbitrary: ys best v)
  case Nil
  then show ?case by simp
next
  case (Cons x xs)
  let ?ys = "ys @ [x]"
  have app: "?ys @ xs = ys @ x # xs" by simp
  have len: "length ?ys = Suc (length ys)" by simp
  show ?case
  proof (cases "v < x")
    case True
    have 1: "length ys < length ?ys" by simp
    have 2: "x = ?ys ! length ys" by simp
    have 3: "\<forall>j<length ?ys. ?ys ! j \<le> x"
      using Cons.prems(3) True by (auto simp: nth_append less_Suc_eq)
    have 4: "\<forall>j<length ys. ?ys ! j < x"
      using Cons.prems(3) True by (auto simp: nth_append)
    from Cons.IH [OF 1 2 3 4] True show ?thesis unfolding app len by simp
  next
    case False
    have 1: "best < length ?ys" using Cons.prems(1) by simp
    have 2: "v = ?ys ! best" using Cons.prems(1,2) by (simp add: nth_append)
    have 3: "\<forall>j<length ?ys. ?ys ! j \<le> v"
      using Cons.prems(3) False by (auto simp: nth_append less_Suc_eq)
    have 4: "\<forall>j<best. ?ys ! j < v"
      using Cons.prems(1,4) by (auto simp: nth_append)
    from Cons.IH [OF 1 2 3 4] False show ?thesis unfolding app len by simp
  qed
qed

lemma np_argmax_first_max:
  assumes "np_argmax xs = Inr i"
  shows "i < length xs" "\<forall>j<length xs. xs ! j \<le> xs ! i" "\<forall>j<i. xs ! j < xs ! i"
proof -
  from assms obtain x rest where xs: "xs = x # rest" and i: "i = argmax_loop rest 1 0 x"
    by (auto simp: np_argmax_def split: list.splits)
  have "argmax_loop rest (length [x]) 0 x < length ([x] @ rest)
       \<and> (\<forall>j<length ([x] @ rest). ([x] @ rest) ! j \<le> ([x] @ rest) ! argmax_loop rest (length [x]) 0 x)
       \<and> (\<forall>j<argmax_loop rest (length [x]) 0 x.
             ([x] @ rest) ! j < ([x] @ rest) ! argmax_loop rest (length [x]) 0 x)"
    by (rule argmax_loop_inv) simp_all
  then show "i < length xs" "\<forall>j<length xs. xs ! j \<le> xs ! i" "\<forall>j<i. xs ! j < xs ! i"
    unfolding xs i by simp_all
qed

lemma np_argmax_total: "xs \<noteq> [] \<Longrightarrow> \<exists>i. np_argmax xs = Inr i"
  by (cases xs) (simp_all add: np_argmax_def)

text \<open>
  Claim C5. On a prediction of one row over the seven classes the handler returns the
  label, the confidence and the advisory record of one class. That class has the greatest
  probability of the row, and of the classes that share the greatest probability it is
  the one with the lowest identifier.
\<close>

theorem uploaded_selects_first_argmax:
  "length row = 7 \<Longrightarrow>
     \<exists>i label info. i < 7
        \<and> (\<forall>j<7. row ! j \<le> row ! i)
        \<and> (\<forall>j<7. row ! j = row ! i \<longrightarrow> i \<le> j)
        \<and> SKIN_CLASSES (int i) = Some label
        \<and> DISEASE_INFO (int i) = Some info
        \<and> uploaded [row] =
            Inr \<lparr>predictions = label,
                 acc = py_round (row ! i * 100) 2,
                 severity_level = severity info,
                 page_precautions = precautions info,
                 page_food_precautions = food_precautions info,
                 page_consultation = consultation info\<rparr>"
proof -
  assume len: "length row = 7"
  then have "row \<noteq> []" by auto
  then obtain i where i: "np_argmax row = Inr i" using np_argmax_total by blast
  note f = np_argmax_first_max [OF i]
  from f(1) len have i7: "i < 7" by simp
  have low: "\<forall>j<7. row ! j = row ! i \<longrightarrow> i \<le> j"
  proof (intro allI impI)
    fix j assume "j < 7" "row ! j = row ! i"
    show "i \<le> j"
    proof (rule ccontr)
      assume "\<not> i \<le> j"
      then have "j < i" by simp
      with f(3) have "row ! j < row ! i" by blast
      with \<open>row ! j = row ! i\<close> show False by simp
    qed
  qed
  from i7 have cases: "i = 0 \<or> i = 1 \<or> i = 2 \<or> i = 3 \<or> i = 4 \<or> i = 5 \<or> i = 6" by auto
  then obtain label where l: "SKIN_CLASSES (int i) = Some label"
    by (elim disjE) (simp_all add: SKIN_CLASSES_def)
  from cases obtain info where d: "DISEASE_INFO (int i) = Some info"
    by (elim disjE) (simp_all add: DISEASE_INFO_def)
  have "uploaded [row] =
            Inr \<lparr>predictions = label,
                 acc = py_round (row ! i * 100) 2,
                 severity_level = severity info,
                 page_precautions = precautions info,
                 page_food_precautions = food_precautions info,
                 page_consultation = consultation info\<rparr>"
    using i f(1) l d by (simp add: uploaded_def and_then_def py_lookup_def py_index_def)
  with i7 f(2) low l d len show ?thesis by auto
qed

theorem uploaded_selects_first_argmax_witness:
  "\<exists>r. uploaded [[0.3, 0.3, 0.1, 0.1, 0.1, 0.05, 0.05]] = Inr r
      \<and> SKIN_CLASSES 0 = Some (predictions r)
      \<and> acc r = 30
      \<and> severity_level r = ''Moderate to High''"
proof -
  have len: "length [0.3, 0.3, 0.1, 0.1, 0.1, 0.05, 0.05 :: real] = 7" by simp
  from uploaded_selects_first_argmax [OF len]
  show ?thesis
    by (simp add: uploaded_def and_then_def py_lookup_def py_index_def np_argmax_def
        SKIN_CLASSES_def DISEASE_INFO_def py_round_def)
qed

text \<open>
  Claim C6. For every class identifier from 0 to 6 the lookup in \<open>DISEASE_INFO\<close> succeeds,
  and the record it returns has a precaution list that is not empty, a dietary list that
  is not empty, and a consultation statement that is not the empty string.
\<close>

theorem advisory_catalog_total:
  "\<forall>k\<in>{0..6}. \<exists>r. py_lookup DISEASE_INFO k = Inr r
      \<and> precautions r \<noteq> [] \<and> food_precautions r \<noteq> [] \<and> consultation r \<noteq> []"
proof
  fix k :: int assume "k \<in> {0..6}"
  then have "k = 0 \<or> k = 1 \<or> k = 2 \<or> k = 3 \<or> k = 4 \<or> k = 5 \<or> k = 6" by auto
  then show "\<exists>r. py_lookup DISEASE_INFO k = Inr r
      \<and> precautions r \<noteq> [] \<and> food_precautions r \<noteq> [] \<and> consultation r \<noteq> []"
    by (elim disjE) (simp_all add: py_lookup_def DISEASE_INFO_def)
qed

theorem advisory_catalog_total_witness:
  "(3::int) \<in> {0..6} \<and> (\<exists>r. py_lookup DISEASE_INFO 3 = Inr r
      \<and> precautions r \<noteq> [] \<and> food_precautions r \<noteq> [] \<and> consultation r \<noteq> [])"
  using advisory_catalog_total by simp

text \<open>
  Claim C8. When the predicted class of the one image of the batch is class 4, the handler
  returns a result with the label "Melanoma", the severity "Very High (dangerous)" and a
  consultation statement that contains the word "Urgent".
\<close>

theorem melanoma_result:
  "np_argmax row = Inr 4 \<Longrightarrow>
     \<exists>r. uploaded [row] = Inr r
        \<and> predictions r = ''Melanoma''
        \<and> severity_level r = ''Very High (dangerous)''
        \<and> (\<exists>pre post. page_consultation r = pre @ ''Urgent'' @ post)"
proof -
  assume a: "np_argmax row = Inr 4"
  then have len: "4 < length row" by (rule np_argmax_first_max(1))
  have "''Urgent dermatologist or oncologist appointment needed.''
        = [] @ ''Urgent'' @ '' dermatologist or oncologist appointment needed.''" by simp
  then have "\<exists>pre post. ''Urgent dermatologist or oncologist appointment needed.''
        = pre @ ''Urgent'' @ post" by blast
  then show ?thesis
    using a len
    by (simp add: uploaded_def and_then_def py_lookup_def py_index_def SKIN_CLASSES_def
        DISEASE_INFO_def)
qed

theorem melanoma_result_witness:
  "\<exists>r. uploaded [[0.01, 0.02, 0.03, 0.04, 0.8, 0.05, 0.05]] = Inr r
        \<and> predictions r = ''Melanoma''
        \<and> severity_level r = ''Very High (dangerous)''
        \<and> (\<exists>pre post. page_consultation r = pre @ ''Urgent'' @ post)"
proof -
  have "np_argmax [0.01, 0.02, 0.03, 0.04, 0.8, 0.05, 0.05] = Inr 4"
    by (simp add: np_argmax_def)
  then show ?thesis by (rule melanoma_result)
qed

section \<open>Properties of the distance calculator\<close>

text \<open>
  In exact arithmetic the haversine term \<open>a\<close> is a weighted mean of two squares of a sine
  and a cosine, so it lies between 0 and 1 and neither square root raises. This is a fact
  of the idealisation only. For two antipodal points \<open>a\<close> is exactly 1, and the program,
  in double precision, can compute a value one unit in the last place above 1 there;
  \<open>math.sqrt(1 - a)\<close> then raises and \<open>calculate_distance\<close> returns \<open>None\<close> on numeric
  input. It has no clamp of \<open>a\<close> to the interval from 0 to 1.
\<close>

lemma hav_a_eq:
  fixes p q l :: real
  shows "(sin ((q - p) / 2))\<^sup>2 + cos p * cos q * (sin (l / 2))\<^sup>2
       = (1 - (sin (l / 2))\<^sup>2) * (sin ((q - p) / 2))\<^sup>2 + (sin (l / 2))\<^sup>2 * (cos ((q + p) / 2))\<^sup>2"
proof -
  have half: "cos (2 * (x / 2)) = cos x" for x :: real by simp
  have s: "(sin ((q - p) / 2))\<^sup>2 = (1 - cos (q - p)) / 2"
    using cos_double_sin [of "(q - p) / 2"] unfolding half by simp
  have c: "(cos ((q + p) / 2))\<^sup>2 = (1 + cos (q + p)) / 2"
    using cos_double_cos [of "(q + p) / 2"] unfolding half by simp
  have "cos (q + p) - cos (q - p) = - 2 * sin p * sin q" "cos (q + p) + cos (q - p) = 2 * cos p * cos q"
    by (simp_all add: cos_add cos_diff)
  then have cc: "cos p * cos q = (cos (q - p) + cos (q + p)) / 2" by simp
  have alg: "(1 - A) / 2 + (A + B) / 2 * S = (1 - S) * ((1 - A) / 2) + S * ((1 + B) / 2)"
    for A B S :: real by (simp add: field_simps)
  show ?thesis unfolding s c cc by (rule alg)
qed

lemma hav_a_bounds:
  fixes p q l :: real
  defines "a \<equiv> (sin ((q - p) / 2))\<^sup>2 + cos p * cos q * (sin (l / 2))\<^sup>2"
  shows "0 \<le> a" "a \<le> 1"
proof -
  let ?s = "(sin (l / 2))\<^sup>2"
  let ?u = "(sin ((q - p) / 2))\<^sup>2"
  let ?v = "(cos ((q + p) / 2))\<^sup>2"
  have a: "a = (1 - ?s) * ?u + ?s * ?v" unfolding a_def by (rule hav_a_eq)
  have s: "0 \<le> ?s" "?s \<le> 1" and u: "0 \<le> ?u" "?u \<le> 1" and v: "0 \<le> ?v" "?v \<le> 1"
    by (simp_all add: abs_square_le_1)
  show "0 \<le> a" unfolding a using s u v by simp
  have "(1 - ?s) * ?u \<le> (1 - ?s) * 1" using s u by (intro mult_left_mono) simp_all
  moreover have "?s * ?v \<le> ?s * 1" using s v by (intro mult_left_mono) simp_all
  ultimately show "a \<le> 1" unfolding a by simp
qed

text \<open>
  In the idealisation, on arguments that \<open>float\<close> accepts the \<open>try\<close> block ends with the
  rounded haversine distance.
\<close>

lemma calculate_distance_try_numeric:
  assumes "py_float fs lat1 = Inr x1" "py_float fs lon1 = Inr y1"
    "py_float fs lat2 = Inr x2" "py_float fs lon2 = Inr y2"
  shows "calculate_distance_try fs lat1 lon1 lat2 lon2
         = Inr (py_round (haversine_km x1 y1 x2 y2) 2)"
proof -
  let ?p = "math_radians x1" and ?q = "math_radians x2"
  let ?l = "math_radians y2 - math_radians y1"
  let ?a = "(sin ((?q - ?p) / 2))\<^sup>2 + cos ?p * cos ?q * (sin (?l / 2))\<^sup>2"
  have a: "0 \<le> ?a" "?a \<le> 1" by (rule hav_a_bounds)+
  have dl: "(x2 - x1) * pi / 180 = ?q - ?p" "(y2 - y1) * pi / 180 = ?l"
    by (simp_all add: math_radians_def field_simps)
  have r: "x1 * pi / 180 = ?p" "x2 * pi / 180 = ?q" by (simp_all add: math_radians_def)
  have s1: "math_sqrt ?a = Inr (sqrt ?a)" using a(1) by (simp add: math_sqrt_def)
  have s2: "math_sqrt (1 - ?a) = Inr (sqrt (1 - ?a))" using a(2) by (simp add: math_sqrt_def)
  show ?thesis
    unfolding calculate_distance_try_def haversine_km_def dl r Let_def assms and_then_def
    by (simp only: sum.case s1 s2)
qed

lemma haversine_same_point: "haversine_km x y x y = 0"
  by (simp add: haversine_km_def math_atan2_def)

lemma calculate_distance_numeric:
  assumes "py_float fs lat1 = Inr x1" "py_float fs lon1 = Inr y1"
    "py_float fs lat2 = Inr x2" "py_float fs lon2 = Inr y2"
  shows "calculate_distance fs lat1 lon1 lat2 lon2 = Some (py_round (haversine_km x1 y1 x2 y2) 2)"
  by (simp add: calculate_distance_def calculate_distance_try_numeric [OF assms])

lemma calculate_distance_failure:
  assumes "py_float fs lat1 = Inl e \<or> py_float fs lon1 = Inl e
         \<or> py_float fs lat2 = Inl e \<or> py_float fs lon2 = Inl e"
  shows "calculate_distance fs lat1 lon1 lat2 lon2 = None"
proof -
  have "\<exists>e'. calculate_distance_try fs lat1 lon1 lat2 lon2 = Inl e'"
    using assms
    by (cases "py_float fs lat1"; cases "py_float fs lon1"; cases "py_float fs lat2";
        cases "py_float fs lon2")
       (simp_all add: calculate_distance_try_def and_then_def)
  then show ?thesis by (auto simp: calculate_distance_def)
qed

lemma calculate_distance_None_iff:
  "calculate_distance fs lat1 lon1 lat2 lon2 = None \<longleftrightarrow>
     (\<exists>e. py_float fs lat1 = Inl e \<or> py_float fs lon1 = Inl e
        \<or> py_float fs lat2 = Inl e \<or> py_float fs lon2 = Inl e)"
proof
  assume n: "calculate_distance fs lat1 lon1 lat2 lon2 = None"
  show "\<exists>e. py_float fs lat1 = Inl e \<or> py_float fs lon1 = Inl e
        \<or> py_float fs lat2 = Inl e \<or> py_float fs lon2 = Inl e"
  proof (rule ccontr)
    assume "\<not> ?thesis"
    then obtain x1 y1 x2 y2 where "py_float fs lat1 = Inr x1" "py_float fs lon1 = Inr y1"
      "py_float fs lat2 = Inr x2" "py_float fs lon2 = Inr y2"
      by (cases "py_float fs lat1"; cases "py_float fs lon1"; cases "py_float fs lat2";
          cases "py_float fs lon2") auto
    from calculate_distance_numeric [OF this] n show False by simp
  qed
next
  assume "\<exists>e. py_float fs lat1 = Inl e \<or> py_float fs lon1 = Inl e
        \<or> py_float fs lat2 = Inl e \<or> py_float fs lon2 = Inl e"
  then show "calculate_distance fs lat1 lon1 lat2 lon2 = None"
    using calculate_distance_failure by blast
qed

lemma haversine_km_sym: "haversine_km x1 y1 x2 y2 = haversine_km x2 y2 x1 y1"
proof -
  have m: "(x1 - x2) * pi / 180 / 2 = - ((x2 - x1) * pi / 180 / 2)"
    "(y1 - y2) * pi / 180 / 2 = - ((y2 - y1) * pi / 180 / 2)"
    by (simp_all add: field_simps)
  show ?thesis
    unfolding haversine_km_def Let_def m sin_minus power2_minus
    by (simp add: mult.commute)
qed

text \<open>
  Claim C10. The distance calculator is symmetric: exchanging the two coordinate pairs
  does not change its result, for numeric coordinates and for every other input as well.
\<close>

theorem distance_symmetric:
  "calculate_distance fs lat1 lon1 lat2 lon2 = calculate_distance fs lat2 lon2 lat1 lon1"
proof (cases "calculate_distance fs lat1 lon1 lat2 lon2")
  case None
  then have "calculate_distance fs lat2 lon2 lat1 lon1 = None"
    unfolding calculate_distance_None_iff by blast
  with None show ?thesis by simp
next
  case (Some d)
  then have "\<not> (\<exists>e. py_float fs lat1 = Inl e \<or> py_float fs lon1 = Inl e
        \<or> py_float fs lat2 = Inl e \<or> py_float fs lon2 = Inl e)"
    using calculate_distance_None_iff [of fs lat1 lon1 lat2 lon2] by simp
  then obtain x1 y1 x2 y2 where f: "py_float fs lat1 = Inr x1" "py_float fs lon1 = Inr y1"
      "py_float fs lat2 = Inr x2" "py_float fs lon2 = Inr y2"
    by (cases "py_float fs lat1"; cases "py_float fs lon1"; cases "py_float fs lat2";
        cases "py_float fs lon2") auto
  show ?thesis
    unfolding calculate_distance_numeric [OF f] calculate_distance_numeric [OF f(3,4,1,2)]
    by (simp add: haversine_km_sym)
qed

text \<open>
  Claim C4. When \<open>float\<close> raises on any of the four arguments (a string that is not a
  number, \<open>None\<close>, a list, a dictionary), the calculator returns \<open>None\<close>, which is not the
  distance zero. The result type has no exception: the bare \<open>except\<close> catches every one.
\<close>

theorem invalid_input_gives_None:
  "py_float fs lat1 = Inl e \<or> py_float fs lon1 = Inl e
   \<or> py_float fs lat2 = Inl e \<or> py_float fs lon2 = Inl e \<Longrightarrow>
     calculate_distance fs lat1 lon1 lat2 lon2 = None
     \<and> calculate_distance fs lat1 lon1 lat2 lon2 \<noteq> Some 0"
  using calculate_distance_failure [of fs lat1 e lon1 lat2 lon2] by simp

theorem invalid_input_gives_None_witness:
  "py_float decimal_float (JStr ''abc'') = Inl ValueError
   \<and> calculate_distance decimal_float (JStr ''abc'') (JStr ''80.4365'') JNull (JInt 80) = None"
proof -
  have f: "py_float decimal_float (JStr ''abc'') = Inl ValueError"
    by (simp add: decimal_float_def unsigned_decimal_def digit_value_def)
  then have "py_float decimal_float (JStr ''abc'') = Inl ValueError
      \<or> py_float decimal_float (JStr ''80.4365'') = Inl ValueError
      \<or> py_float decimal_float JNull = Inl ValueError
      \<or> py_float decimal_float (JInt 80) = Inl ValueError"
    by blast
  from invalid_input_gives_None [OF this] f show ?thesis by blast
qed

section \<open>Properties of the hospital lookup\<close>

text \<open>
  On a candidate of the provider's shape the loop body appends an entry that carries the
  candidate's coordinates and the result of \<open>calculate_distance\<close> on them, whatever that
  result is; on a list of such candidates the loop appends one entry for each, in order.
\<close>

lemma hospital_entry_candidate:
  assumes "provider_candidate r"
  shows "\<exists>h la lo. hospital_entry fs a b r = Inr h
      \<and> getitem r ''lat'' = Inr la \<and> getitem r ''lon'' = Inr lo
      \<and> h_lat h = la \<and> h_lng h = lo
      \<and> h_distance h = calculate_distance fs (JStr a) (JStr b) la lo"
proof -
  from assms obtain kvs where r: "r = JObj kvs" by (cases r) simp_all
  from assms r obtain la lo where l: "map_of kvs ''lat'' = Some la" "map_of kvs ''lon'' = Some lo"
    by auto
  have ad: "\<exists>rd. and_then (dict_get r ''address'' (JObj [])) (\<lambda>ad. dict_get ad ''road'' (JStr ''Not Provided'')) = Inr rd"
  proof (cases "map_of kvs ''address''")
    case None
    then show ?thesis by (simp add: r and_then_def)
  next
    case (Some v)
    with assms r obtain akvs where "v = JObj akvs" by (cases v) simp_all
    with Some show ?thesis by (simp add: r and_then_def)
  qed
  then obtain rd where rd: "and_then (dict_get r ''address'' (JObj [])) (\<lambda>ad. dict_get ad ''road'' (JStr ''Not Provided'')) = Inr rd" ..
  then show ?thesis
    using l by (auto simp: hospital_entry_def r and_then_def Let_def split: sum.splits)
qed

lemma hospitals_loop_candidates:
  assumes "\<forall>r\<in>set rs. provider_candidate r"
  shows "\<exists>hs. hospitals_loop fs a b hs0 rs = Inr (hs0 @ hs)
      \<and> list_all2 (\<lambda>r h. hospital_entry fs a b r = Inr h) rs hs"
  using assms
proof (induction rs arbitrary: hs0)
  case Nil
  then show ?case by simp
next
  case (Cons r rs)
  then obtain h where h: "hospital_entry fs a b r = Inr h"
    using hospital_entry_candidate [of r fs a b] by auto
  from Cons obtain hs where hs: "hospitals_loop fs a b (hs0 @ [h]) rs = Inr ((hs0 @ [h]) @ hs)"
    "list_all2 (\<lambda>r h. hospital_entry fs a b r = Inr h) rs hs"
    by (metis list.set_intros(2))
  show ?case
    by (rule exI [of _ "h # hs"]) (simp add: h hs)
qed

text \<open>
  The lookup on a list of candidates of the provider's shape: the ok response with the
  resolved coordinate and one entry for each candidate.
\<close>

lemma lookup_on_candidates:
  assumes "\<forall>r\<in>set rs. provider_candidate r"
  shows "\<exists>a b hs. resolve_coordinates lat_arg lng_arg = (a, b)
      \<and> nearby_hospitals fs lat_arg lng_arg (Inr (JArr rs)) = Ok_response a b hs
      \<and> length hs = length rs
      \<and> (\<forall>i<length rs. \<exists>la lo.
            getitem (rs ! i) ''lat'' = Inr la \<and> getitem (rs ! i) ''lon'' = Inr lo
            \<and> h_lat (hs ! i) = la \<and> h_lng (hs ! i) = lo
            \<and> h_distance (hs ! i) = calculate_distance fs (JStr a) (JStr b) la lo
            \<and> ((\<exists>e. py_float fs la = Inl e \<or> py_float fs lo = Inl e)
                 \<longrightarrow> h_distance (hs ! i) = None))"
proof -
  obtain a b where ab: "resolve_coordinates lat_arg lng_arg = (a, b)" by (cases "resolve_coordinates lat_arg lng_arg")
  from hospitals_loop_candidates [OF assms, of fs a b "[]"]
  obtain hs where loop: "hospitals_loop fs a b [] rs = Inr hs"
    and all: "list_all2 (\<lambda>r h. hospital_entry fs a b r = Inr h) rs hs" by auto
  have resp: "nearby_hospitals fs lat_arg lng_arg (Inr (JArr rs)) = Ok_response a b hs"
    by (simp add: nearby_hospitals_def ab and_then_def loop)
  have len: "length hs = length rs" using all by (simp add: list_all2_lengthD)
  have each: "\<exists>la lo.
            getitem (rs ! i) ''lat'' = Inr la \<and> getitem (rs ! i) ''lon'' = Inr lo
            \<and> h_lat (hs ! i) = la \<and> h_lng (hs ! i) = lo
            \<and> h_distance (hs ! i) = calculate_distance fs (JStr a) (JStr b) la lo
            \<and> ((\<exists>e. py_float fs la = Inl e \<or> py_float fs lo = Inl e)
                 \<longrightarrow> h_distance (hs ! i) = None)" if i: "i < length rs" for i
  proof -
    have e: "hospital_entry fs a b (rs ! i) = Inr (hs ! i)"
      using list_all2_nthD [OF all i] by simp
    from assms i have "provider_candidate (rs ! i)" by simp
    from hospital_entry_candidate [OF this, of fs a b] e
    obtain la lo where g: "getitem (rs ! i) ''lat'' = Inr la" "getitem (rs ! i) ''lon'' = Inr lo"
      "h_lat (hs ! i) = la" "h_lng (hs ! i) = lo"
      "h_distance (hs ! i) = calculate_distance fs (JStr a) (JStr b) la lo"
      by auto
    have "(\<exists>e. py_float fs la = Inl e \<or> py_float fs lo = Inl e) \<longrightarrow> h_distance (hs ! i) = None"
      unfolding g(5) calculate_distance_None_iff by blast
    with g show ?thesis by blast
  qed
  from ab resp len each show ?thesis by blast
qed

text \<open>
  Claim C1, as amended. When every candidate of the provider's list is an object with the
  fields \<open>lat\<close> and \<open>lon\<close> (its \<open>address\<close>, if present, an object), the lookup returns status
  ok with one entry for each candidate, in order. Each entry carries its own candidate's
  coordinates and the distance computed from them alone, and a candidate whose \<open>lat\<close> or
  \<open>lon\<close> value \<open>float\<close> cannot coerce (malformed, empty or null) has the distance \<open>None\<close>.
\<close>

theorem candidate_failure_isolated:
  assumes "\<forall>r\<in>set rs. provider_candidate r"
  shows "\<exists>a b hs. resolve_coordinates lat_arg lng_arg = (a, b)
      \<and> nearby_hospitals fs lat_arg lng_arg (Inr (JArr rs)) = Ok_response a b hs
      \<and> length hs = length rs
      \<and> (\<forall>i<length rs. \<exists>la lo.
            getitem (rs ! i) ''lat'' = Inr la \<and> getitem (rs ! i) ''lon'' = Inr lo
            \<and> h_lat (hs ! i) = la \<and> h_lng (hs ! i) = lo
            \<and> h_distance (hs ! i) = calculate_distance fs (JStr a) (JStr b) la lo
            \<and> ((\<exists>e. py_float fs la = Inl e \<or> py_float fs lo = Inl e)
                 \<longrightarrow> h_distance (hs ! i) = None))"
  using assms by (rule lookup_on_candidates)

theorem candidate_failure_isolated_witness:
  "provider_candidate (JObj [(''display_name'', JStr ''A''), (''lat'', JStr ''16.3067''),
                            (''lon'', JStr ''80.4365'')])
   \<and> provider_candidate (JObj [(''lat'', JStr ''abc''), (''lon'', JStr ''80.45''),
                            (''address'', JObj [(''road'', JStr ''Main Road'')])])
   \<and> nearby_hospitals decimal_float None None
     (Inr (JArr [JObj [(''display_name'', JStr ''A''), (''lat'', JStr ''16.3067''),
                       (''lon'', JStr ''80.4365'')],
                 JObj [(''lat'', JStr ''abc''), (''lon'', JStr ''80.45''),
                       (''address'', JObj [(''road'', JStr ''Main Road'')])]]))
     = Ok_response ''16.3067'' ''80.4365''
        [\<lparr>h_name = JStr ''A'', h_address = JStr ''Not Provided'',
          h_lat = JStr ''16.3067'', h_lng = JStr ''80.4365'', h_distance = Some 0\<rparr>,
         \<lparr>h_name = JStr ''Unknown Hospital'', h_address = JStr ''Main Road'',
          h_lat = JStr ''abc'', h_lng = JStr ''80.45'', h_distance = None\<rparr>]"
proof -
  let ?rs = "[JObj [(''display_name'', JStr ''A''), (''lat'', JStr ''16.3067''),
                       (''lon'', JStr ''80.4365'')],
                 JObj [(''lat'', JStr ''abc''), (''lon'', JStr ''80.45''),
                       (''address'', JObj [(''road'', JStr ''Main Road'')])]]"
  have ok: "\<forall>r\<in>set ?rs. provider_candidate r" by simp
  have f: "py_float decimal_float (JStr ''16.3067'') = Inr 16.3067"
    "py_float decimal_float (JStr ''80.4365'') = Inr 80.4365"
    "py_float decimal_float (JStr ''abc'') = Inl ValueError"
    by (simp_all add: decimal_float_def unsigned_decimal_def digit_value_def)
  have d1: "calculate_distance decimal_float (JStr ''16.3067'') (JStr ''80.4365'')
      (JStr ''16.3067'') (JStr ''80.4365'') = Some 0"
    using calculate_distance_numeric [OF f(1,2,1,2)]
    by (simp add: haversine_same_point py_round_def)
  have d2: "calculate_distance decimal_float (JStr ''16.3067'') (JStr ''80.4365'')
      (JStr ''abc'') (JStr ''80.45'') = None"
    using f(3) by (intro calculate_distance_failure [where e = ValueError]) simp
  from candidate_failure_isolated [OF ok, of None None decimal_float]
  show ?thesis
    by (simp add: nearby_hospitals_def resolve_coordinates_def py_not_def and_then_def
        hospital_entry_def DEFAULT_LAT_def DEFAULT_LNG_def d1 d2)
qed

text \<open>
  The claim as the specification states it also covers a candidate whose coordinate is
  missing. A candidate without the field \<open>lat\<close> makes the subscript \<open>r["lat"]\<close> raise
  \<open>KeyError\<close> before \<open>calculate_distance\<close> is called, and the handler of \<open>nearby_hospitals\<close>
  turns it into the error response: the well-formed first candidate is lost with it.
\<close>

theorem missing_coordinate_aborts:
  "nearby_hospitals decimal_float None None
     (Inr (JArr [JObj [(''display_name'', JStr ''A''), (''lat'', JStr ''16.3067''),
                       (''lon'', JStr ''80.4365'')],
                 JObj [(''display_name'', JStr ''B''), (''lon'', JStr ''80.45'')]]))
   = Error_response (KeyError (JStr ''lat''))"
  by (simp add: nearby_hospitals_def resolve_coordinates_def py_not_def and_then_def
      hospital_entry_def)

text \<open>
  Claim C2. On a provider list of well-formed candidates: when \<open>lat\<close> or \<open>lng\<close> is absent
  from the query, the lookup reports the default coordinate ("16.3067", "80.4365") as the
  one used and computes every distance from it. When both are supplied as strings that
  \<open>float\<close> accepts (the empty string is not one), the lookup reports these two strings
  unchanged as the coordinate used, and every distance is the one \<open>calculate_distance\<close>
  gives for their values as floats.
\<close>

theorem coordinate_resolution:
  assumes "\<forall>r\<in>set rs. provider_candidate r"
  shows "(lat_arg = None \<or> lng_arg = None \<longrightarrow>
      (\<exists>hs. nearby_hospitals fs lat_arg lng_arg (Inr (JArr rs))
              = Ok_response ''16.3067'' ''80.4365'' hs
         \<and> length hs = length rs
         \<and> (\<forall>i<length rs. \<exists>la lo.
               getitem (rs ! i) ''lat'' = Inr la \<and> getitem (rs ! i) ''lon'' = Inr lo
               \<and> h_distance (hs ! i)
                   = calculate_distance fs (JStr ''16.3067'') (JStr ''80.4365'') la lo)))
   \<and> (lat_arg = Some s \<and> lng_arg = Some t \<and> fs s = Some x \<and> fs t = Some y \<and> fs [] = None \<longrightarrow>
      (\<exists>hs. nearby_hospitals fs lat_arg lng_arg (Inr (JArr rs)) = Ok_response s t hs
         \<and> length hs = length rs
         \<and> (\<forall>i<length rs. \<exists>la lo.
               getitem (rs ! i) ''lat'' = Inr la \<and> getitem (rs ! i) ''lon'' = Inr lo
               \<and> h_distance (hs ! i)
                   = calculate_distance fs (JFloat x) (JFloat y) la lo)))"
proof (intro conjI impI)
  assume "lat_arg = None \<or> lng_arg = None"
  then have "py_not lat_arg \<or> py_not lng_arg" by (auto simp: py_not_def)
  then have r: "resolve_coordinates lat_arg lng_arg = (''16.3067'', ''80.4365'')"
    by (simp add: resolve_coordinates_def DEFAULT_LAT_def DEFAULT_LNG_def)
  from lookup_on_candidates [OF assms, of lat_arg lng_arg fs] r
  show "\<exists>hs. nearby_hospitals fs lat_arg lng_arg (Inr (JArr rs))
              = Ok_response ''16.3067'' ''80.4365'' hs
         \<and> length hs = length rs
         \<and> (\<forall>i<length rs. \<exists>la lo.
               getitem (rs ! i) ''lat'' = Inr la \<and> getitem (rs ! i) ''lon'' = Inr lo
               \<and> h_distance (hs ! i)
                   = calculate_distance fs (JStr ''16.3067'') (JStr ''80.4365'') la lo)"
    by (elim exE conjE) (rule exI, auto)
next
  assume a: "lat_arg = Some s \<and> lng_arg = Some t \<and> fs s = Some x \<and> fs t = Some y \<and> fs [] = None"
  then have "s \<noteq> []" "t \<noteq> []" by auto
  with a have r: "resolve_coordinates lat_arg lng_arg = (s, t)"
    by (simp add: resolve_coordinates_def py_not_def)
  have d: "calculate_distance fs (JStr s) (JStr t) la lo
      = calculate_distance fs (JFloat x) (JFloat y) la lo" for la lo
    using a by (simp add: calculate_distance_def calculate_distance_try_def)
  from lookup_on_candidates [OF assms, of lat_arg lng_arg fs] r
  obtain hs where hs: "nearby_hospitals fs lat_arg lng_arg (Inr (JArr rs)) = Ok_response s t hs"
    "length hs = length rs"
    "\<forall>i<length rs. \<exists>la lo.
            getitem (rs ! i) ''lat'' = Inr la \<and> getitem (rs ! i) ''lon'' = Inr lo
            \<and> h_lat (hs ! i) = la \<and> h_lng (hs ! i) = lo
            \<and> h_distance (hs ! i) = calculate_distance fs (JStr s) (JStr t) la lo
            \<and> ((\<exists>e. py_float fs la = Inl e \<or> py_float fs lo = Inl e)
                 \<longrightarrow> h_distance (hs ! i) = None)"
    by auto
  from hs(3) have "\<forall>i<length rs. \<exists>la lo.
               getitem (rs ! i) ''lat'' = Inr la \<and> getitem (rs ! i) ''lon'' = Inr lo
               \<and> h_distance (hs ! i)
                   = calculate_distance fs (JFloat x) (JFloat y) la lo"
    unfolding d by blast
  with hs(1,2) show "\<exists>hs. nearby_hospitals fs lat_arg lng_arg (Inr (JArr rs)) = Ok_response s t hs
         \<and> length hs = length rs
         \<and> (\<forall>i<length rs. \<exists>la lo.
               getitem (rs ! i) ''lat'' = Inr la \<and> getitem (rs ! i) ''lon'' = Inr lo
               \<and> h_distance (hs ! i)
                   = calculate_distance fs (JFloat x) (JFloat y) la lo)"
    by blast
qed

theorem coordinate_resolution_witness:
  "decimal_float ''17.5'' = Some 17.5 \<and> decimal_float ''78.25'' = Some 78.25
   \<and> decimal_float [] = None
   \<and> provider_candidate (JObj [(''lat'', JStr ''17.5''), (''lon'', JStr ''78.25'')])
   \<and> nearby_hospitals decimal_float (Some ''17.5'') (Some ''78.25'')
        (Inr (JArr [JObj [(''lat'', JStr ''17.5''), (''lon'', JStr ''78.25'')]]))
      = Ok_response ''17.5'' ''78.25''
          [\<lparr>h_name = JStr ''Unknown Hospital'', h_address = JStr ''Not Provided'',
            h_lat = JStr ''17.5'', h_lng = JStr ''78.25'', h_distance = Some 0\<rparr>]
   \<and> nearby_hospitals decimal_float None (Some ''78.25'')
        (Inr (JArr [JObj [(''lat'', JStr ''16.3067''), (''lon'', JStr ''80.4365'')]]))
      = Ok_response ''16.3067'' ''80.4365''
          [\<lparr>h_name = JStr ''Unknown Hospital'', h_address = JStr ''Not Provided'',
            h_lat = JStr ''16.3067'', h_lng = JStr ''80.4365'', h_distance = Some 0\<rparr>]"
proof -
  have f: "decimal_float ''17.5'' = Some 17.5" "decimal_float ''78.25'' = Some 78.25"
    "decimal_float [] = None"
    "decimal_float ''16.3067'' = Some 16.3067" "decimal_float ''80.4365'' = Some 80.4365"
    by (simp_all add: decimal_float_def unsigned_decimal_def digit_value_def)
  have p: "py_float decimal_float (JStr ''17.5'') = Inr 17.5"
    "py_float decimal_float (JStr ''78.25'') = Inr 78.25"
    "py_float decimal_float (JStr ''16.3067'') = Inr 16.3067"
    "py_float decimal_float (JStr ''80.4365'') = Inr 80.4365"
    by (simp_all add: f)
  have d1: "calculate_distance decimal_float (JStr ''17.5'') (JStr ''78.25'')
      (JStr ''17.5'') (JStr ''78.25'') = Some 0"
    using calculate_distance_numeric [OF p(1,2,1,2)]
    by (simp add: haversine_same_point py_round_def)
  have d2: "calculate_distance decimal_float (JStr ''16.3067'') (JStr ''80.4365'')
      (JStr ''16.3067'') (JStr ''80.4365'') = Some 0"
    using calculate_distance_numeric [OF p(3,4,3,4)]
    by (simp add: haversine_same_point py_round_def)
  have c1: "\<forall>r\<in>set [JObj [(''lat'', JStr ''17.5''), (''lon'', JStr ''78.25'')]].
      provider_candidate r" by simp
  have c2: "\<forall>r\<in>set [JObj [(''lat'', JStr ''16.3067''), (''lon'', JStr ''80.4365'')]].
      provider_candidate r" by simp
  from coordinate_resolution [OF c1, of "Some ''17.5''" "Some ''78.25''" decimal_float
      "''17.5''" "''78.25''" "17.5" "78.25"]
    coordinate_resolution [OF c2, of None "Some ''78.25''" decimal_float]
  show ?thesis
    by (simp add: f nearby_hospitals_def resolve_coordinates_def py_not_def and_then_def
        hospital_entry_def DEFAULT_LAT_def DEFAULT_LNG_def d1 d2)
qed

text \<open>
  Claim C7. When the provider returns an empty list, the lookup returns the ok response
  with the resolved coordinate and an empty hospital list, not an error response.
\<close>

theorem no_candidates_ok:
  "\<exists>a b. resolve_coordinates lat_arg lng_arg = (a, b)
      \<and> nearby_hospitals fs lat_arg lng_arg (Inr (JArr [])) = Ok_response a b []"
  by (cases "resolve_coordinates lat_arg lng_arg") (simp add: nearby_hospitals_def and_then_def)

text \<open>
  Claim C9. When one of \<open>lat\<close> and \<open>lng\<close> is absent or the empty string, both coordinates
  are the defaults, whatever the other parameter holds: the lookup answers exactly as it
  does for a query with neither parameter.
\<close>

theorem partial_coordinates_discarded:
  "lat_arg = None \<or> lat_arg = Some [] \<or> lng_arg = None \<or> lng_arg = Some [] \<Longrightarrow>
     resolve_coordinates lat_arg lng_arg = (''16.3067'', ''80.4365'')
     \<and> nearby_hospitals fs lat_arg lng_arg p = nearby_hospitals fs None None p"
proof -
  assume "lat_arg = None \<or> lat_arg = Some [] \<or> lng_arg = None \<or> lng_arg = Some []"
  then have p: "py_not lat_arg \<or> py_not lng_arg" by (auto simp: py_not_def)
  then have r: "resolve_coordinates lat_arg lng_arg = (''16.3067'', ''80.4365'')"
    by (simp add: resolve_coordinates_def DEFAULT_LAT_def DEFAULT_LNG_def)
  have "resolve_coordinates None None = (''16.3067'', ''80.4365'')"
    by (simp add: resolve_coordinates_def py_not_def DEFAULT_LAT_def DEFAULT_LNG_def)
  with r show ?thesis by (simp add: nearby_hospitals_def)
qed

theorem partial_coordinates_discarded_witness:
  "resolve_coordinates (Some ''17.5'') None = (''16.3067'', ''80.4365'')
   \<and> resolve_coordinates (Some ''17.5'') (Some []) = (''16.3067'', ''80.4365'')
   \<and> nearby_hospitals decimal_float (Some ''17.5'') None (Inr (JArr []))
      = Ok_response ''16.3067'' ''80.4365'' []"
proof -
  from partial_coordinates_discarded [of "Some ''17.5''" None decimal_float "Inr (JArr [])"]
    partial_coordinates_discarded [of "Some ''17.5''" "Some []" decimal_float "Inr (JArr [])"]
  show ?thesis
    by (simp add: nearby_hospitals_def resolve_coordinates_def py_not_def and_then_def
        DEFAULT_LAT_def DEFAULT_LNG_def)
qed

end
